theory Spec2Isabelle
  imports Main
begin

section \<open>Python strings\<close>

text \<open>
  A Python \<open>str\<close> is a sequence of code points and \<open>len\<close> counts them. The model is
  \<open>string\<close>, one \<open>char\<close> per code point, so it covers the code points below 256.
\<close>

definition isspace :: "char \<Rightarrow> bool" where
  \<comment> \<open>\<open>str.isspace\<close> on one code point below 256: tab to carriage return, the four
     separators 0x1C to 0x1F, the space, NEL (0x85) and the no-break space (0xA0).\<close>
  "isspace c =
     (let n = (of_char c :: nat)
      in (9 \<le> n \<and> n \<le> 13) \<or> (28 \<le> n \<and> n \<le> 32) \<or> n = 133 \<or> n = 160)"

definition lstrip :: "string \<Rightarrow> string" where
  "lstrip s = dropWhile isspace s"

definition rstrip :: "string \<Rightarrow> string" where
  "rstrip s = rev (dropWhile isspace (rev s))"

definition strip :: "string \<Rightarrow> string" where
  "strip s = lstrip (rstrip s)"

definition digit_char :: "nat \<Rightarrow> char" where
  "digit_char d = char_of (48 + d)"

fun digits :: "nat \<Rightarrow> string" where
  "digits n = (if n < 10 then [digit_char n] else digits (n div 10) @ [digit_char (n mod 10)])"

declare digits.simps [simp del]

definition str_int :: "int \<Rightarrow> string" where
  \<comment> \<open>\<open>str(i)\<close>, which is also what an f-string writes for \<open>{i}\<close>.\<close>
  "str_int i = (if i < 0 then CHR ''-'' # digits (nat (- i)) else digits (nat i))"

fun startswith :: "string \<Rightarrow> string \<Rightarrow> bool" where
  "startswith s [] = True"
| "startswith [] (p # ps) = False"
| "startswith (c # cs) (p # ps) = (c = p \<and> startswith cs ps)"

fun contains :: "string \<Rightarrow> string \<Rightarrow> bool" where
  \<comment> \<open>\<open>sub in s\<close>\<close>
  "contains sub [] = (sub = [])"
| "contains sub (c # cs) = (startswith (c # cs) sub \<or> contains sub cs)"

section \<open>Exceptions and the external collaborators\<close>

datatype exn = Exn (is_Exception: bool) (type_name: string) (str_of: string)
  \<comment> \<open>an exception \<open>e\<close>: whether \<open>isinstance(e, Exception)\<close>, which is what
     \<open>except Exception\<close> catches and which \<open>KeyboardInterrupt\<close> and \<open>SystemExit\<close>
     are not; \<open>type(e).__name__\<close>; and \<open>str(e)\<close>\<close>

type_synonym stdout_t = "string \<Rightarrow> nat \<Rightarrow> exn option"
  \<comment> \<open>the exception, if any, that the \<open>print\<close> or \<open>traceback.print_exc()\<close> at a
     line of a source file raises in this run, such as \<open>UnicodeEncodeError\<close> for a
     pictograph on a terminal that cannot encode it\<close>

type_synonym llm_t = "string \<Rightarrow> exn + string"
  \<comment> \<open>\<open>llm.invoke(prompt)\<close>: the generated text, or the exception raised\<close>

type_synonym result_dict = "string \<rightharpoonup> string"

type_synonym qa_chain_t = "string \<Rightarrow> exn + result_dict"
  \<comment> \<open>\<open>qa_chain.invoke({"query": question})\<close>\<close>

datatype document = Document (page_content: string) (source: string)

datatype vector_store_t = FAISS (indexed: "document list") (embedded_with: string)

record RAGAgent =
  docs_dir :: string
  model_name :: string
  embeddings_model :: string
  base_url :: string
  vector_store :: "vector_store_t option"
  qa_chain :: "qa_chain_t option"
  faiss_index_path :: string
  llm :: "llm_t option"

section \<open>The answer length controller\<close>

definition summary_prompt :: "string \<Rightarrow> int \<Rightarrow> string" where
  "summary_prompt text max_length =
     ''Summarize the following answer to be at most '' @ str_int max_length @
     '' characters. Keep key facts and be concise.'' @ [CHR 0x0A, CHR 0x0A] @
     ''Answer:'' @ [CHR 0x0A] @ text @ [CHR 0x0A, CHR 0x0A] @ ''Summary:''"

definition truncated :: "string \<Rightarrow> int \<Rightarrow> string" where
  \<comment> \<open>the expression \<open>s[:max_length].rstrip() + "..."\<close>, for \<open>max_length > 0\<close>\<close>
  "truncated s max_length = rstrip (take (nat max_length) s) @ ''...''"

datatype call = QAInvoke string | LLMInvoke string
  \<comment> \<open>a call that left the agent: \<open>qa_chain.invoke\<close> with a question (embedding,
     retrieval and generation), \<open>llm.invoke\<close> with a prompt\<close>

definition summarize_text :: "RAGAgent \<Rightarrow> string \<Rightarrow> int \<Rightarrow> (exn + string) \<times> call list" where
  \<comment> \<open>\<open>RAGAgent._summarize_text\<close>: the returned text or the exception that leaves
     the function, and the calls made to the generation provider on the way. The
     \<open>except Exception\<close> of line 171 catches the exceptions of class \<open>Exception\<close>
     only.\<close>
  "summarize_text self text max_length =
     (if text = [] \<or> max_length \<le> 0 then (Inr [], [])
      else if int (length text) \<le> max_length then (Inr text, [])
      else case llm self of
        None \<Rightarrow> (Inr (truncated text max_length), [])
      | Some invoke \<Rightarrow>
          (let prompt = summary_prompt text max_length
           in case invoke prompt of
                Inr summary \<Rightarrow>
                  (let summary = strip summary
                   in if int (length summary) \<le> max_length then (Inr summary, [LLMInvoke prompt])
                      else (Inr (truncated summary max_length), [LLMInvoke prompt]))
              | Inl e \<Rightarrow>
                  (if is_Exception e then (Inr (truncated text max_length), [LLMInvoke prompt])
                   else (Inl e, [LLMInvoke prompt]))))"

section \<open>Configuration\<close>

record config_t =
  EMBEDDINGS_MODEL :: "string option"
  OLLAMA_BASE_URL :: "string option"
  MAX_RESPONSE_LENGTH :: "int option"
  \<comment> \<open>the attributes of the \<open>config\<close> module that the agent reads with \<open>getattr\<close>;
     \<open>None\<close> is an attribute that is not set\<close>

definition config_py :: config_t where
  \<comment> \<open>\<open>config.py\<close> as shipped\<close>
  "config_py = \<lparr>EMBEDDINGS_MODEL = Some ''nomic-embed-text'',
     OLLAMA_BASE_URL = Some ''http://localhost:11434'', MAX_RESPONSE_LENGTH = Some 700\<rparr>"

definition getattr :: "config_t option \<Rightarrow> (config_t \<Rightarrow> 'a option) \<Rightarrow> 'a option" where
  \<comment> \<open>\<open>getattr(config, name, None)\<close>; \<open>config\<close> itself is \<open>None\<close> when its import failed\<close>
  "getattr config field = (case config of None \<Rightarrow> None | Some c \<Rightarrow> field c)"

definition max_response_length :: "config_t option \<Rightarrow> int" where
  \<comment> \<open>\<open>getattr(config, "MAX_RESPONSE_LENGTH", None) or 0\<close>\<close>
  "max_response_length config =
     (case getattr config MAX_RESPONSE_LENGTH of None \<Rightarrow> 0 | Some n \<Rightarrow> if n = 0 then 0 else n)"

section \<open>Answering a question\<close>

definition not_initialized :: string where
  "not_initialized = ''Agent not properly initialized. Make sure Ollama is running.''"

definition unreachable :: string where
  "unreachable = ''Error: Ollama is unreachable. Start it with `ollama serve` '' @
     ''or set OLLAMA_BASE_URL to the correct endpoint.''"

definition query_error :: "exn \<Rightarrow> string" where
  \<comment> \<open>the string that the \<open>except\<close> branch of \<open>RAGAgent.query\<close> returns
     (lines 233 to 238)\<close>
  "query_error e =
     (if contains ''Connection refused'' (str_of e) \<or> contains ''Max retries exceeded'' (str_of e)
      then unreachable
      else ''Error processing query: '' @ type_name e @ '': '' @ str_of e)"

definition query_try :: "config_t option \<Rightarrow> RAGAgent \<Rightarrow> string \<Rightarrow> (exn + string) \<times> call list" where
  \<comment> \<open>the \<open>try\<close> block of \<open>RAGAgent.query\<close> (lines 219 to 227): what it returns or
     raises, and the calls made on the way\<close>
  "query_try config self question =
     (case qa_chain self of
        None \<Rightarrow> (Inr not_initialized, [])
      | Some chain \<Rightarrow>
          (case chain question of
             Inl e \<Rightarrow> (Inl e, [QAInvoke question])
           | Inr result \<Rightarrow>
               (let answer = (case result ''result'' of None \<Rightarrow> ''No answer found'' | Some a \<Rightarrow> a);
                    max_length = max_response_length config
                in if max_length \<noteq> 0 \<and> int (length answer) > max_length
                   then (let (r, calls) = summarize_text self answer max_length
                         in (r, QAInvoke question # calls))
                   else (Inr answer, [QAInvoke question]))))"

definition query_except :: "stdout_t \<Rightarrow> exn \<Rightarrow> exn + string" where
  \<comment> \<open>the \<open>except Exception as e\<close> block of \<open>RAGAgent.query\<close> (lines 230 to 238):
     it prints, prints the traceback, and returns a message; an exception raised by the
     printing leaves the function\<close>
  "query_except out e =
     (case out ''agent.py'' 231 of
        Some e' \<Rightarrow> Inl e'
      | None \<Rightarrow>
          (case out ''agent.py'' 232 of
             Some e' \<Rightarrow> Inl e'
           | None \<Rightarrow> Inr (query_error e)))"

definition query :: "stdout_t \<Rightarrow> config_t option \<Rightarrow> RAGAgent \<Rightarrow> string \<Rightarrow> (exn + string) \<times> call list" where
  \<comment> \<open>\<open>RAGAgent.query\<close>: the returned string, or the exception that reaches the
     caller, and the calls made on the way\<close>
  "query out config self question =
     (case query_try config self question of
        (Inr text, calls) \<Rightarrow> (Inr text, calls)
      | (Inl e, calls) \<Rightarrow>
          (if is_Exception e then (query_except out e, calls) else (Inl e, calls)))"

section \<open>The web layer\<close>

datatype json = JsonResponse string | JsonError string
  \<comment> \<open>\<open>jsonify({'response': ...})\<close> and \<open>jsonify({'error': ...})\<close>\<close>

type_synonym request_json = "exn + (string \<times> string) list option"
  \<comment> \<open>\<open>request.json\<close>: it raises, or it is \<open>None\<close> or a dict\<close>

definition query_agent_try ::
  "stdout_t \<Rightarrow> config_t option \<Rightarrow> RAGAgent \<Rightarrow> request_json \<Rightarrow> exn + json \<times> nat" where
  \<comment> \<open>the \<open>try\<close> block of the handler of \<open>POST /api/query\<close> (lines 28 to 42 of
     \<open>app.py\<close>): the body and the status code, or the exception raised\<close>
  "query_agent_try out config rag_agent request =
     (case request of
        Inl e \<Rightarrow> Inl e
      | Inr None \<Rightarrow> Inr (JsonError ''Invalid request'', 400)
      | Inr (Some data) \<Rightarrow>
          (if data = [] then Inr (JsonError ''Invalid request'', 400)
           else case map_of data ''query'' of
                  None \<Rightarrow> Inr (JsonError ''Query is required'', 400)
                | Some q \<Rightarrow>
                    (if q = [] then Inr (JsonError ''Query is required'', 400)
                     else case out ''app.py'' 37 of
                       Some e \<Rightarrow> Inl e
                     | None \<Rightarrow>
                         (case out ''app.py'' 38 of
                            Some e \<Rightarrow> Inl e
                          | None \<Rightarrow>
                              (case fst (query out config rag_agent q) of
                                 Inl e \<Rightarrow> Inl e
                               | Inr response \<Rightarrow>
                                   (case out ''app.py'' 40 of
                                      Some e \<Rightarrow> Inl e
                                    | None \<Rightarrow> Inr (JsonResponse response, 200)))))))"

definition query_agent ::
  "stdout_t \<Rightarrow> config_t option \<Rightarrow> RAGAgent \<Rightarrow> request_json \<Rightarrow> exn + json \<times> nat" where
  \<comment> \<open>the handler of \<open>POST /api/query\<close>: its \<open>except Exception\<close> block (lines 44
     to 48) prints, prints the traceback and answers with status 500\<close>
  "query_agent out config rag_agent request =
     (case query_agent_try out config rag_agent request of
        Inr reply \<Rightarrow> Inr reply
      | Inl e \<Rightarrow>
          (if is_Exception e then
             (case out ''app.py'' 45 of
                Some e' \<Rightarrow> Inl e'
              | None \<Rightarrow>
                  (case out ''app.py'' 47 of
                     Some e' \<Rightarrow> Inl e'
                   | None \<Rightarrow> Inr (JsonError (''Server error: '' @ str_of e), 500)))
           else Inl e))"

section \<open>Where the index is persisted\<close>

definition replace :: "char \<Rightarrow> char \<Rightarrow> string \<Rightarrow> string" where
  \<comment> \<open>\<open>s.replace(old, new)\<close> for one-character \<open>old\<close> and \<open>new\<close>\<close>
  "replace old new s = map (\<lambda>c. if c = old then new else c) s"

definition path_join :: "string \<Rightarrow> string \<Rightarrow> string" where
  \<comment> \<open>\<open>os.path.join(a, b)\<close> of \<open>posixpath\<close>\<close>
  "path_join a b =
     (if startswith b ''/'' then b
      else if a = [] \<or> last a = CHR ''/'' then a @ b
      else a @ ''/'' @ b)"

definition index_path :: "string \<Rightarrow> string \<Rightarrow> string" where
  \<comment> \<open>lines 42 and 43 of \<open>RAGAgent.__init__\<close>\<close>
  "index_path dir embeddings =
     (let safe_embeddings_name = replace (CHR '':'') (CHR ''_'') embeddings
      in path_join dir (''faiss_index_'' @ safe_embeddings_name))"

definition or_else :: "string option \<Rightarrow> string \<Rightarrow> string" where
  \<comment> \<open>\<open>x or y\<close> on an optional string: \<open>None\<close> and the empty string are falsy\<close>
  "or_else x y = (case x of None \<Rightarrow> y | Some s \<Rightarrow> if s = [] then y else s)"

definition init_fields ::
  "config_t option \<Rightarrow> string option \<Rightarrow> string \<Rightarrow> string \<Rightarrow> string option \<Rightarrow> string option \<Rightarrow> RAGAgent" where
  \<comment> \<open>the attributes \<open>RAGAgent.__init__\<close> sets before it creates the directory and
     initialises the agent (lines 33 to 43); \<open>getenv\<close> is \<open>os.getenv("OLLAMA_BASE_URL")\<close>\<close>
  "init_fields config getenv dir model url embeddings =
     (let em = or_else embeddings
                 (case getattr config EMBEDDINGS_MODEL of None \<Rightarrow> ''nomic-embed-text'' | Some m \<Rightarrow> m);
          bu = or_else url
                 (case getenv of
                    Some v \<Rightarrow> v
                  | None \<Rightarrow> (case getattr config OLLAMA_BASE_URL of
                               None \<Rightarrow> ''http://localhost:11434'' | Some u \<Rightarrow> u))
      in \<lparr>docs_dir = dir, model_name = model, embeddings_model = em, base_url = bu,
          vector_store = None, qa_chain = None, faiss_index_path = index_path dir em,
          llm = None\<rparr>)"

section \<open>The file system and the libraries\<close>

datatype node = File string | IndexDir vector_store_t
  \<comment> \<open>what a path holds: a regular file with its text, or a directory written by
     \<open>FAISS.save_local\<close>\<close>

type_synonym fs = "string \<rightharpoonup> node"
  \<comment> \<open>the files and index directories, by resolved path\<close>

datatype embeddings_t = OllamaEmbeddings string string
  \<comment> \<open>the embedding client: the model and the base URL\<close>

record externals =
  print_err :: stdout_t
  time_now :: int
  realpath :: "string \<Rightarrow> string"
  inside :: "string \<Rightarrow> string \<Rightarrow> bool"
  open_err :: "string \<Rightarrow> exn option"
  rmtree_err :: "string \<Rightarrow> exn option"
  makedirs_err :: "string \<Rightarrow> exn option"
  save_err :: "string \<Rightarrow> exn option"
  load_local :: "node \<Rightarrow> embeddings_t \<Rightarrow> exn + vector_store_t"
  text_loader :: "fs \<Rightarrow> string \<Rightarrow> exn + document list"
  pdf_loader :: "fs \<Rightarrow> string \<Rightarrow> exn + document list"
  split_documents :: "document list \<Rightarrow> document list"
  from_documents :: "document list \<Rightarrow> embeddings_t \<Rightarrow> exn + vector_store_t"
  ollama :: "string \<Rightarrow> string \<Rightarrow> exn + llm_t"
  retrieval_qa :: "llm_t \<Rightarrow> vector_store_t \<Rightarrow> string \<Rightarrow> exn + qa_chain_t"
  \<comment> \<open>What the agent does not decide: what printing raises; \<open>int(time.time())\<close>;
     which entry of the file system a path names (\<open>realpath\<close>: two spellings of a path
     can name one entry) and which entries lie inside a directory (\<open>inside dir entry\<close>,
     on resolved paths); the exception, if any, with which \<open>open(path, "w")\<close>,
     \<open>shutil.rmtree\<close>, \<open>os.makedirs\<close> and \<open>save_local\<close> fail at a path; and the
     library calls \<open>FAISS.load_local\<close>, the two \<open>DirectoryLoader(...).load()\<close> (globs
     \<open>**/*.txt\<close> and \<open>**/*.pdf\<close>),
     \<open>RecursiveCharacterTextSplitter(chunk_size=700, chunk_overlap=20).split_documents\<close>,
     \<open>FAISS.from_documents\<close>, \<open>Ollama(model, base_url, timeout=600, temperature=0.3)\<close>
     and \<open>RetrievalQA.from_chain_type\<close> with \<open>k = 1\<close> and the prompt template.\<close>

record world =
  agent :: RAGAgent
  files :: fs

definition exists :: "externals \<Rightarrow> fs \<Rightarrow> string \<Rightarrow> bool" where
  \<comment> \<open>\<open>os.path.exists(path)\<close>\<close>
  "exists ext f path = (f (realpath ext path) \<noteq> None)"

definition write_file :: "externals \<Rightarrow> string \<Rightarrow> string \<Rightarrow> fs \<Rightarrow> exn + fs" where
  \<comment> \<open>\<open>with open(path, "w") as f: f.write(content)\<close>\<close>
  "write_file ext path content f =
     (case f (realpath ext path) of
        Some (IndexDir _) \<Rightarrow> Inl (Exn True ''IsADirectoryError''
                  (''[Errno 21] Is a directory: '' @ CHR 0x27 # path @ [CHR 0x27]))
      | _ \<Rightarrow> (case open_err ext path of
                Some e \<Rightarrow> Inl e
              | None \<Rightarrow> Inr (f(realpath ext path \<mapsto> File content))))"

definition rmtree :: "externals \<Rightarrow> string \<Rightarrow> fs \<Rightarrow> exn + fs" where
  \<comment> \<open>\<open>shutil.rmtree(path)\<close>: the directory goes, and every entry inside it\<close>
  "rmtree ext path f =
     (case f (realpath ext path) of
        None \<Rightarrow> Inl (Exn True ''FileNotFoundError''
                  (''[Errno 2] No such file or directory: '' @ CHR 0x27 # path @ [CHR 0x27]))
      | Some (File _) \<Rightarrow> Inl (Exn True ''NotADirectoryError''
                  (''[Errno 20] Not a directory: '' @ CHR 0x27 # path @ [CHR 0x27]))
      | Some (IndexDir _) \<Rightarrow>
          (case rmtree_err ext path of
             Some e \<Rightarrow> Inl e
           | None \<Rightarrow> Inr (\<lambda>entry. if entry = realpath ext path \<or> inside ext (realpath ext path) entry
                                  then None else f entry)))"

definition save_local :: "externals \<Rightarrow> vector_store_t \<Rightarrow> string \<Rightarrow> fs \<Rightarrow> exn + fs" where
  "save_local ext vs path f =
     (case save_err ext path of
        Some e \<Rightarrow> Inl e
      | None \<Rightarrow> Inr (f(realpath ext path \<mapsto> IndexDir vs)))"

definition load_all :: "externals \<Rightarrow> string \<Rightarrow> fs \<Rightarrow> exn + document list" where
  \<comment> \<open>\<open>text_loader.load() + pdf_loader.load()\<close>\<close>
  "load_all ext dir f =
     (case text_loader ext f dir of
        Inl e \<Rightarrow> Inl e
      | Inr texts \<Rightarrow> (case pdf_loader ext f dir of Inl e \<Rightarrow> Inl e | Inr pdfs \<Rightarrow> Inr (texts @ pdfs)))"

definition sample_content :: string where
  "sample_content =
     ''Sample Document - About Artificial Intelligence\<newline>'' @
     ''\<newline>'' @
     ''Artificial Intelligence (AI) is the simulation of human intelligence processes by machines,\<newline>'' @
     ''especially computer systems. These processes include:\<newline>'' @
     ''\<newline>'' @
     ''1. Learning - AI systems can learn from data and improve their performance\<newline>'' @
     ''2. Reasoning - AI can use logic to solve problems and make decisions\<newline>'' @
     ''3. Problem-solving - AI can identify and solve complex problems\<newline>'' @
     ''4. Language Processing - AI can understand and generate human language\<newline>'' @
     ''\<newline>'' @
     ''Types of AI:\<newline>'' @
     ''- Narrow AI: Designed for specific tasks\<newline>'' @
     ''- General AI: Hypothetical AI with human-level intelligence\<newline>'' @
     ''- Super AI: Theoretical AI surpassing human intelligence\<newline>'' @
     ''\<newline>'' @
     ''Applications of AI:\<newline>'' @
     ''- Natural Language Processing\<newline>'' @
     ''- Computer Vision\<newline>'' @
     ''- Robotics\<newline>'' @
     ''- Healthcare\<newline>'' @
     ''- Finance\<newline>'' @
     ''- Education\<newline>'' @
     ''\<newline>'' @
     ''Machine Learning is a subset of AI that enables systems to learn and improve from experience.\<newline>'' @
     ''Deep Learning uses artificial neural networks with multiple layers.\<newline>'' @
     ''\<newline>'' @
     ''AI is transforming industries and society with both opportunities and challenges.''"

definition prompt_template :: string where
  "prompt_template =
     ''Context: {context}\<newline>'' @
     ''\<newline>'' @
     ''Question: {question}\<newline>'' @
     ''Answer concisely:''"

section \<open>Statements that change the world or raise\<close>

type_synonym 'a io = "world \<Rightarrow> (exn + 'a) \<times> world"
  \<comment> \<open>a statement: from the world before it, the value or the exception raised, and
     the world after it; what was assigned before an exception stays assigned\<close>

definition ret :: "'a \<Rightarrow> 'a io" where
  "ret a w = (Inr a, w)"

definition raise :: "exn \<Rightarrow> 'a io" where
  "raise e w = (Inl e, w)"

definition lift :: "exn + 'a \<Rightarrow> 'a io" where
  \<comment> \<open>a call that leaves the world as it is\<close>
  "lift r w = (r, w)"

definition then_do :: "'a io \<Rightarrow> ('a \<Rightarrow> 'b io) \<Rightarrow> 'b io" where
  \<comment> \<open>one statement after another: an exception skips the rest\<close>
  "then_do m k w = (case m w of (Inl e, w1) \<Rightarrow> (Inl e, w1) | (Inr a, w1) \<Rightarrow> k a w1)"

definition except_Exception :: "'a io \<Rightarrow> (exn \<Rightarrow> 'a io) \<Rightarrow> 'a io" where
  \<comment> \<open>\<open>try: m  except Exception as e: handler\<close>\<close>
  "except_Exception m handler w =
     (case m w of
        (Inl e, w1) \<Rightarrow> (if is_Exception e then handler e w1 else (Inl e, w1))
      | (Inr a, w1) \<Rightarrow> (Inr a, w1))"

definition print_line :: "externals \<Rightarrow> nat \<Rightarrow> unit io" where
  \<comment> \<open>the \<open>print\<close> at a line of \<open>agent.py\<close>\<close>
  "print_line ext line = lift (case print_err ext ''agent.py'' line of Some e \<Rightarrow> Inl e | None \<Rightarrow> Inr ())"

definition update_files :: "(fs \<Rightarrow> exn + fs) \<Rightarrow> unit io" where
  \<comment> \<open>an operation on the file system\<close>
  "update_files operation w =
     (case operation (files w) of Inl e \<Rightarrow> (Inl e, w) | Inr f \<Rightarrow> (Inr (), w\<lparr>files := f\<rparr>))"

definition set_vector_store :: "vector_store_t \<Rightarrow> unit io" where
  "set_vector_store vs w = (Inr (), w\<lparr>agent := (agent w)\<lparr>vector_store := Some vs\<rparr>\<rparr>)"

definition set_llm :: "llm_t \<Rightarrow> unit io" where
  "set_llm l w = (Inr (), w\<lparr>agent := (agent w)\<lparr>llm := Some l\<rparr>\<rparr>)"

definition set_qa_chain :: "qa_chain_t \<Rightarrow> unit io" where
  "set_qa_chain chain w = (Inr (), w\<lparr>agent := (agent w)\<lparr>qa_chain := Some chain\<rparr>\<rparr>)"

section \<open>Building the index\<close>

definition create_sample_document :: "externals \<Rightarrow> unit io" where
  \<comment> \<open>\<open>RAGAgent._create_sample_document\<close>\<close>
  "create_sample_document ext w =
     then_do (lift (case makedirs_err ext (docs_dir (agent w)) of Some e \<Rightarrow> Inl e | None \<Rightarrow> Inr ()))
       (\<lambda>_. update_files
          (write_file ext (path_join (docs_dir (agent w)) ''sample.txt'') sample_content)) w"

definition load_documents :: "externals \<Rightarrow> document list io" where
  \<comment> \<open>lines 74 to 90 of \<open>_initialize_agent\<close>: load, and when nothing is found warn,
     write the sample document and load again\<close>
  "load_documents ext w =
     then_do (\<lambda>w. lift (load_all ext (docs_dir (agent w)) (files w)) w)
       (\<lambda>documents.
          if documents = [] then
            then_do (print_line ext 87)
              (\<lambda>_. then_do (create_sample_document ext)
                 (\<lambda>_ w. lift (load_all ext (docs_dir (agent w)) (files w)) w))
          else ret documents) w"

definition create_vector_store :: "externals \<Rightarrow> embeddings_t \<Rightarrow> unit io" where
  \<comment> \<open>the \<open>else\<close> branch of \<open>_initialize_agent\<close> (lines 70 to 106): ingestion,
     chunking, embedding and index build, persist\<close>
  "create_vector_store ext embeddings =
     then_do (print_line ext 71)
       (\<lambda>_. then_do (load_documents ext)
          (\<lambda>documents.
             (let docs = split_documents ext documents
              in then_do (print_line ext 100)
                   (\<lambda>_. then_do (lift (from_documents ext docs embeddings))
                      (\<lambda>vs. then_do (set_vector_store vs)
                         (\<lambda>_. then_do (print_line ext 104)
                            (\<lambda>_. then_do
                               (\<lambda>w. update_files (save_local ext vs (faiss_index_path (agent w))) w)
                               (\<lambda>_. print_line ext 106))))))))"

definition load_vector_store :: "externals \<Rightarrow> node \<Rightarrow> embeddings_t \<Rightarrow> unit io" where
  \<comment> \<open>the \<open>if\<close> branch of \<open>_initialize_agent\<close> (lines 63 to 68), for the entry found
     at the index path\<close>
  "load_vector_store ext cached embeddings =
     then_do (print_line ext 63)
       (\<lambda>_. then_do (lift (load_local ext cached embeddings))
          (\<lambda>vs. then_do (set_vector_store vs)
             (\<lambda>_. print_line ext 68)))"

definition no_as_retriever :: exn where
  \<comment> \<open>what \<open>self.vector_store.as_retriever\<close> raises on \<open>None\<close>\<close>
  "no_as_retriever =
     Exn True ''AttributeError''
       (CHR 0x27 # ''NoneType'' @ CHR 0x27 # '' object has no attribute '' @
        CHR 0x27 # ''as_retriever'' @ [CHR 0x27])"

definition initialize_try :: "externals \<Rightarrow> unit io" where
  \<comment> \<open>the \<open>try\<close> block of \<open>_initialize_agent\<close> (lines 54 to 139)\<close>
  "initialize_try ext w =
     (let self = agent w;
          embeddings = OllamaEmbeddings (embeddings_model self) (base_url self)
      in then_do
           (case files w (realpath ext (faiss_index_path self)) of
              Some cached \<Rightarrow> load_vector_store ext cached embeddings
            | None \<Rightarrow> create_vector_store ext embeddings)
           (\<lambda>_. then_do (print_line ext 110)
              (\<lambda>_. then_do (lift (ollama ext (model_name self) (base_url self)))
                 (\<lambda>l. then_do (set_llm l)
                    (\<lambda>_. then_do
                       (\<lambda>w. case vector_store (agent w) of
                              None \<Rightarrow> raise no_as_retriever w
                            | Some vs \<Rightarrow> lift (retrieval_qa ext l vs prompt_template) w)
                       (\<lambda>chain. then_do (set_qa_chain chain)
                          (\<lambda>_. print_line ext 139)))))) w)"

definition initialize_except :: "externals \<Rightarrow> exn \<Rightarrow> unit io" where
  \<comment> \<open>the \<open>except Exception as e\<close> block of \<open>_initialize_agent\<close> (lines 142 to
     149): it prints and raises \<open>e\<close> again\<close>
  "initialize_except ext e =
     then_do (print_line ext 142)
       (\<lambda>_. then_do
          (if contains ''Connection refused'' (str_of e) \<or> contains ''Max retries exceeded'' (str_of e)
           then then_do (print_line ext 144) (\<lambda>_. print_line ext 145)
           else then_do (print_line ext 147) (\<lambda>_. print_line ext 148))
          (\<lambda>_. raise e))"

definition initialize_agent :: "externals \<Rightarrow> unit io" where
  \<comment> \<open>\<open>RAGAgent._initialize_agent\<close>\<close>
  "initialize_agent ext = except_Exception (initialize_try ext) (initialize_except ext)"

definition remove_cached_index :: "externals \<Rightarrow> string \<Rightarrow> fs \<Rightarrow> exn + fs" where
  \<comment> \<open>\<open>if os.path.exists(path): shutil.rmtree(path)\<close>\<close>
  "remove_cached_index ext path f = (if exists ext f path then rmtree ext path f else Inr f)"

definition document_path :: "externals \<Rightarrow> RAGAgent \<Rightarrow> string option \<Rightarrow> string" where
  \<comment> \<open>lines 252 to 256 of \<open>add_document\<close>\<close>
  "document_path ext self filename =
     (let filename = or_else filename (''document_'' @ str_int (time_now ext) @ ''.txt'')
      in path_join (docs_dir self) filename)"

definition add_document_try :: "externals \<Rightarrow> string \<Rightarrow> string option \<Rightarrow> bool io" where
  \<comment> \<open>the \<open>try\<close> block of \<open>RAGAgent.add_document\<close> (lines 252 to 267)\<close>
  "add_document_try ext content filename w =
     (let self = agent w;
          filepath = document_path ext self filename
      in then_do (update_files (write_file ext filepath content))
           (\<lambda>_. then_do (update_files (remove_cached_index ext (faiss_index_path self)))
              (\<lambda>_. then_do (initialize_agent ext)
                 (\<lambda>_. ret True))) w)"

definition add_document :: "externals \<Rightarrow> world \<Rightarrow> string \<Rightarrow> string option \<Rightarrow> (exn + bool) \<times> world" where
  \<comment> \<open>\<open>RAGAgent.add_document\<close>: the returned flag or the exception that reaches the
     caller, and the world it leaves\<close>
  "add_document ext w content filename =
     except_Exception (add_document_try ext content filename)
       (\<lambda>e. then_do (print_line ext 270) (\<lambda>_. ret False)) w"

definition rebuild_index :: "externals \<Rightarrow> world \<Rightarrow> (exn + bool) \<times> world" where
  \<comment> \<open>\<open>RAGAgent.rebuild_index\<close>\<close>
  "rebuild_index ext w =
     except_Exception
       (then_do (update_files (remove_cached_index ext (faiss_index_path (agent w))))
          (\<lambda>_. then_do (initialize_agent ext)
             (\<lambda>_. then_do (print_line ext 280)
                (\<lambda>_. ret True))))
       (\<lambda>e. then_do (print_line ext 283) (\<lambda>_. ret False)) w"

section \<open>Concrete agents and collaborators\<close>

definition fresh_agent :: RAGAgent where
  \<comment> \<open>the attributes of \<open>RAGAgent()\<close> under \<open>config.py\<close>, before initialisation:
     no index, no chain, no generation provider\<close>
  "fresh_agent = init_fields (Some config_py) None ''documents'' ''phi3:mini'' None None"

definition out_ok :: stdout_t where
  \<comment> \<open>a terminal on which every print succeeds\<close>
  "out_ok file line = None"

definition encode_error :: exn where
  \<comment> \<open>what \<open>print\<close> raises for the cross mark on an ASCII terminal\<close>
  "encode_error =
     Exn True ''UnicodeEncodeError''
       (CHR 0x27 # ''ascii'' @ CHR 0x27 # '' codec can'' @ CHR 0x27 # ''t encode character '' @
        CHR 0x27 # CHR 0x5C # ''u274c'' @ CHR 0x27 # '' in position 0: ordinal not in range(128)'')"

definition out_ascii :: stdout_t where
  \<comment> \<open>a terminal that cannot encode the cross mark printed at line 231 of
     \<open>agent.py\<close>\<close>
  "out_ascii file line = (if file = ''agent.py'' \<and> line = 231 then Some encode_error else None)"

definition keyboard_interrupt :: exn where
  "keyboard_interrupt = Exn False ''KeyboardInterrupt'' []"

definition connection_refused :: exn where
  "connection_refused = Exn True ''ConnectionError'' ''Connection refused''"

definition llm_down :: llm_t where
  \<comment> \<open>a generation provider that is unreachable\<close>
  "llm_down prompt = Inl connection_refused"

definition llm_echo :: llm_t where
  \<comment> \<open>a generation provider that answers with the text after the last newline of
     its prompt, padded with blanks\<close>
  "llm_echo prompt = Inr (''  '' @ rev (takeWhile (\<lambda>c. c \<noteq> CHR 0x0A) (rev prompt)) @ ''  '')"

definition llm_fixed :: "string \<Rightarrow> llm_t" where
  \<comment> \<open>a generation provider that always answers with the same text\<close>
  "llm_fixed answer prompt = Inr answer"

definition chain_raising :: "exn \<Rightarrow> qa_chain_t" where
  "chain_raising e question = Inl e"

definition chain_answering :: "string \<Rightarrow> qa_chain_t" where
  "chain_answering answer question = Inr [''result'' \<mapsto> answer]"

definition sky :: document where
  "sky = Document ''The sky is blue.'' ''documents/sky.txt''"

definition old_index :: vector_store_t where
  "old_index = FAISS [sky] ''nomic-embed-text''"

definition ext_up :: externals where
  \<comment> \<open>collaborators that all work: every path names itself and the entries inside a
     directory are those whose path continues it after a slash; the text loader reads
     \<open>sky.txt\<close> and \<open>grass.txt\<close> of the documents directory, there are no PDF
     files, every document is one chunk, and the index holds the chunks and the name of the
     embedding model\<close>
  "ext_up =
     \<lparr>print_err = out_ok,
      time_now = 1700000000,
      realpath = (\<lambda>path. path),
      inside = (\<lambda>dir entry. startswith entry (dir @ ''/'')),
      open_err = (\<lambda>path. None),
      rmtree_err = (\<lambda>path. None),
      makedirs_err = (\<lambda>path. None),
      save_err = (\<lambda>path. None),
      load_local = (\<lambda>cached embeddings. case cached of
                      IndexDir vs \<Rightarrow> Inr vs
                    | File _ \<Rightarrow> Inl (Exn True ''RuntimeError'' ''could not open index'')),
      text_loader = (\<lambda>f dir. Inr (concat (map
                      (\<lambda>path. case f path of Some (File c) \<Rightarrow> [Document c path] | _ \<Rightarrow> [])
                      [path_join dir ''sky.txt'', path_join dir ''grass.txt'']))),
      pdf_loader = (\<lambda>f dir. Inr []),
      split_documents = (\<lambda>documents. documents),
      from_documents = (\<lambda>docs embeddings. case embeddings of
                          OllamaEmbeddings model url \<Rightarrow> Inr (FAISS docs model)),
      ollama = (\<lambda>model url. Inr llm_down),
      retrieval_qa = (\<lambda>l vs template. Inr (chain_answering ''green''))\<rparr>"

definition ext_down :: externals where
  \<comment> \<open>the same, with the embedding provider unreachable\<close>
  "ext_down = ext_up\<lparr>from_documents := (\<lambda>docs embeddings. Inl connection_refused)\<rparr>"

definition ready :: world where
  \<comment> \<open>an initialised agent: one document, its index in memory and on disk\<close>
  "ready =
     \<lparr>agent = fresh_agent\<lparr>vector_store := Some old_index,
                 qa_chain := Some (chain_answering ''blue''), llm := Some llm_down\<rparr>,
      files = [''documents/sky.txt'' \<mapsto> File ''The sky is blue.'',
               ''documents/faiss_index_nomic-embed-text'' \<mapsto> IndexDir old_index]\<rparr>"

section \<open>Evaluation lemmas\<close>

lemma fresh_agent_simps:
  "docs_dir fresh_agent = ''documents''"
  "model_name fresh_agent = ''phi3:mini''"
  "embeddings_model fresh_agent = ''nomic-embed-text''"
  "base_url fresh_agent = ''http://localhost:11434''"
  "vector_store fresh_agent = None"
  "qa_chain fresh_agent = None"
  "faiss_index_path fresh_agent = ''documents/faiss_index_nomic-embed-text''"
  "llm fresh_agent = None"
  by (simp_all add: fresh_agent_def init_fields_def Let_def or_else_def getattr_def config_py_def
      index_path_def replace_def path_join_def)

lemmas strip_defs = truncated_def rstrip_def lstrip_def strip_def isspace_def

lemmas io_defs = ret_def raise_def lift_def then_do_def except_Exception_def print_line_def
  update_files_def set_vector_store_def set_llm_def set_qa_chain_def

lemmas fs_defs = write_file_def rmtree_def save_local_def load_all_def exists_def
  remove_cached_index_def document_path_def or_else_def path_join_def

lemmas init_defs = create_sample_document_def load_documents_def create_vector_store_def
  load_vector_store_def initialize_try_def initialize_except_def initialize_agent_def

section \<open>The answer length controller: what it returns\<close>

lemma rstrip_length: "length (rstrip s) \<le> length s"
  unfolding rstrip_def by (metis length_dropWhile_le length_rev)

lemma truncated_length: "0 < m \<Longrightarrow> int (length (truncated s m)) \<le> m + 3"
proof -
  assume "0 < m"
  have "length (rstrip (take (nat m) s)) \<le> length (take (nat m) s)"
    by (rule rstrip_length)
  also have "\<dots> \<le> nat m"
    by simp
  finally have "int (length (rstrip (take (nat m) s))) \<le> m"
    using \<open>0 < m\<close> by linarith
  then show ?thesis
    by (simp add: truncated_def)
qed

text \<open>
  What does hold of the length: a returned text is at most three characters, the
  ellipsis, over \<open>max_length\<close>.
\<close>

lemma summarize_text_length:
  "0 < m \<Longrightarrow> fst (summarize_text self s m) = Inr r \<Longrightarrow> int (length r) \<le> m + 3"
  unfolding summarize_text_def Let_def
  using truncated_length by (auto split: option.splits sum.splits if_splits)

text \<open>
  An exception that leaves \<open>_summarize_text\<close> is not of class \<open>Exception\<close>: those are
  caught at line 171.
\<close>

lemma summarize_text_raises:
  "fst (summarize_text self s m) = Inl e \<Longrightarrow> \<not> is_Exception e"
  unfolding summarize_text_def Let_def
  by (auto split: option.splits sum.splits if_splits)

text \<open>
  C1. The result of \<open>_summarize_text\<close> is to fit within \<open>max_length\<close> characters, as
  its docstring says. It does not: the text is cut at \<open>max_length\<close> characters and the
  three characters of the ellipsis are appended to that. For the six-character text
  \<open>abcdef\<close> and \<open>max_length = 3\<close> the result has six characters, whether the
  generation provider is absent, unreachable, or returns a summary that is too long.
\<close>

theorem summarize_text_exceeds_max_length:
  "fst (summarize_text fresh_agent ''abcdef'' 3) = Inr ''abc...'' \<and>
   fst (summarize_text (fresh_agent\<lparr>llm := Some llm_down\<rparr>) ''abcdef'' 3) = Inr ''abc...'' \<and>
   fst (summarize_text (fresh_agent\<lparr>llm := Some (llm_fixed ''abcdefgh'')\<rparr>) ''abcdef'' 3) =
     Inr ''abc...'' \<and>
   \<not> int (length ''abc...'') \<le> 3"
  by (simp add: summarize_text_def fresh_agent_simps llm_down_def connection_refused_def
      llm_fixed_def strip_defs)

text \<open>
  C2. Applying \<open>_summarize_text\<close> to its own result is to change nothing. It does
  change it: the first result \<open>ab...\<close> of the text \<open>ab cdef\<close> under \<open>max_length = 3\<close>
  is itself longer than three characters, so the second application cuts it again and
  appends a second ellipsis. The provider is unreachable in both calls.
\<close>

theorem summarize_text_not_idempotent:
  "fst (summarize_text (fresh_agent\<lparr>llm := Some llm_down\<rparr>) ''ab cdef'' 3) = Inr ''ab...'' \<and>
   (case fst (summarize_text (fresh_agent\<lparr>llm := Some llm_down\<rparr>) ''ab cdef'' 3) of
      Inr once \<Rightarrow> fst (summarize_text (fresh_agent\<lparr>llm := Some llm_down\<rparr>) once 3)
    | Inl e \<Rightarrow> Inl e) = Inr ''ab....''"
  by (simp add: summarize_text_def llm_down_def connection_refused_def strip_defs)

text \<open>
  C3, as stated: when the provider fails the result is the first \<open>max_length\<close>
  characters of the text followed by the ellipsis, and likewise for a summary that is too
  long. The code removes trailing whitespace from the cut before it appends the ellipsis,
  and strips the summary before it measures it. For the text \<open>a   bcdef\<close> cut at 4 the
  result is \<open>a...\<close>, four characters, and not \<open>a   ...\<close>, both for the text when
  the provider is unreachable and for a summary of that wording; and the summary
  \<open>abc\<close> between blanks, seven characters, comes back as \<open>abc\<close> under
  \<open>max_length = 3\<close>, with no ellipsis.
\<close>

theorem fallback_strips_before_ellipsis:
  "fst (summarize_text (fresh_agent\<lparr>llm := Some llm_down\<rparr>) ''a   bcdef'' 4) = Inr ''a...'' \<and>
   take 4 ''a   bcdef'' @ ''...'' = ''a   ...'' \<and>
   fst (summarize_text (fresh_agent\<lparr>llm := Some (llm_fixed ''a   bcdef'')\<rparr>) ''abcdefgh'' 4) =
     Inr ''a...'' \<and>
   3 < int (length ''  abc  '') \<and>
   fst (summarize_text (fresh_agent\<lparr>llm := Some (llm_fixed ''  abc  '')\<rparr>) ''abcdef'' 3) =
     Inr ''abc''"
  by (simp add: summarize_text_def llm_down_def connection_refused_def llm_fixed_def strip_defs)

text \<open>
  C3, amended. Take a text longer than \<open>max_length > 0\<close> and a provider that is
  present. When the call fails with an exception of class \<open>Exception\<close>, the result is
  cut from the original text: for \<open>max_length\<close> of at least 3 it is the ellipsis appended
  to some cut of at most \<open>max_length\<close> characters of the text, trailing whitespace
  removed; and whenever the first \<open>max_length\<close> characters without their trailing
  whitespace leave room for the ellipsis within \<open>max_length\<close>, it is exactly those
  followed by the ellipsis. When the call returns, the summary is stripped of surrounding
  whitespace first; a stripped summary of at most \<open>max_length\<close> characters is the
  result, and a longer one is cut in the same way as the text. How many characters are
  kept when the ellipsis does not fit is the matter of C1 and is left open here.
\<close>

theorem summarize_text_fallback:
  assumes "0 < max_length" and "max_length < int (length text)" and "llm self = Some invoke"
  shows "(\<forall>e. invoke (summary_prompt text max_length) = Inl e \<and> is_Exception e \<longrightarrow>
            (3 \<le> max_length \<longrightarrow>
               (\<exists>n\<le>nat max_length. fst (summarize_text self text max_length) =
                  Inr (rstrip (take n text) @ ''...''))) \<and>
            (int (length (rstrip (take (nat max_length) text))) + 3 \<le> max_length \<longrightarrow>
               fst (summarize_text self text max_length) =
                 Inr (rstrip (take (nat max_length) text) @ ''...''))) \<and>
         (\<forall>summary. invoke (summary_prompt text max_length) = Inr summary \<longrightarrow>
            (int (length (strip summary)) \<le> max_length \<longrightarrow>
               fst (summarize_text self text max_length) = Inr (strip summary)) \<and>
            (max_length < int (length (strip summary)) \<and> 3 \<le> max_length \<longrightarrow>
               (\<exists>n\<le>nat max_length. fst (summarize_text self text max_length) =
                  Inr (rstrip (take n (strip summary)) @ ''...''))) \<and>
            (max_length < int (length (strip summary)) \<and>
             int (length (rstrip (take (nat max_length) (strip summary)))) + 3 \<le> max_length \<longrightarrow>
               fst (summarize_text self text max_length) =
                 Inr (rstrip (take (nat max_length) (strip summary)) @ ''...'')))"
proof -
  have failing: "fst (summarize_text self text max_length) =
      Inr (rstrip (take (nat max_length) text) @ ''...'')"
    if "invoke (summary_prompt text max_length) = Inl e" and "is_Exception e" for e
    using assms that by (auto simp add: summarize_text_def truncated_def Let_def)
  have fitting: "fst (summarize_text self text max_length) = Inr (strip summary)"
    if "invoke (summary_prompt text max_length) = Inr summary"
      and "int (length (strip summary)) \<le> max_length" for summary
    using assms that by (auto simp add: summarize_text_def Let_def)
  have longer: "fst (summarize_text self text max_length) =
      Inr (rstrip (take (nat max_length) (strip summary)) @ ''...'')"
    if "invoke (summary_prompt text max_length) = Inr summary"
      and "max_length < int (length (strip summary))" for summary
    using assms that by (auto simp add: summarize_text_def truncated_def Let_def)
  show ?thesis
    using failing fitting longer by blast
qed

theorem summarize_text_fallback_witness:
  "(0::int) < 4 \<and> 4 < int (length ''a   bcdef'') \<and>
   llm (fresh_agent\<lparr>llm := Some llm_down\<rparr>) = Some llm_down \<and>
   llm_down (summary_prompt ''a   bcdef'' 4) = Inl connection_refused \<and>
   is_Exception connection_refused \<and>
   int (length (rstrip (take (nat 4) ''a   bcdef''))) + 3 \<le> 4 \<and>
   fst (summarize_text (fresh_agent\<lparr>llm := Some llm_down\<rparr>) ''a   bcdef'' 4) = Inr ''a...'' \<and>
   fst (summarize_text (fresh_agent\<lparr>llm := Some (llm_fixed ''a   bcdef'')\<rparr>) ''abcdefgh'' 4) =
     Inr ''a...'' \<and>
   fst (summarize_text (fresh_agent\<lparr>llm := Some (llm_fixed ''  abc  '')\<rparr>) ''abcdefgh'' 4) =
     Inr ''abc''"
proof -
  have cut: "rstrip (take (nat 4) ''a   bcdef'') = ''a''"
    by (simp add: rstrip_def isspace_def)
  have stripped: "strip ''a   bcdef'' = ''a   bcdef''" "strip ''  abc  '' = ''abc''"
    by (simp_all add: strip_def lstrip_def rstrip_def isspace_def)
  have down: "llm_down (summary_prompt ''a   bcdef'' 4) = Inl connection_refused"
    "is_Exception connection_refused"
    by (simp_all add: llm_down_def connection_refused_def)
  from summarize_text_fallback [of 4 "''a   bcdef''" "fresh_agent\<lparr>llm := Some llm_down\<rparr>" llm_down]
    down cut
  have one: "fst (summarize_text (fresh_agent\<lparr>llm := Some llm_down\<rparr>) ''a   bcdef'' 4) = Inr ''a...''"
    by simp
  from summarize_text_fallback [of 4 "''abcdefgh''"
      "fresh_agent\<lparr>llm := Some (llm_fixed ''a   bcdef'')\<rparr>" "llm_fixed ''a   bcdef''"]
    cut stripped
  have two: "fst (summarize_text (fresh_agent\<lparr>llm := Some (llm_fixed ''a   bcdef'')\<rparr>)
      ''abcdefgh'' 4) = Inr ''a...''"
    by (simp add: llm_fixed_def)
  from summarize_text_fallback [of 4 "''abcdefgh''"
      "fresh_agent\<lparr>llm := Some (llm_fixed ''  abc  '')\<rparr>" "llm_fixed ''  abc  ''"]
    stripped
  have three: "fst (summarize_text (fresh_agent\<lparr>llm := Some (llm_fixed ''  abc  '')\<rparr>)
      ''abcdefgh'' 4) = Inr ''abc''"
    by (simp add: llm_fixed_def)
  from one two three down cut show ?thesis
    by simp
qed

text \<open>
  C4. For \<open>max_length \<le> 0\<close> and for the empty text the result is the empty string,
  and a text of at most \<open>max_length\<close> characters is returned unchanged; no call is made
  to the provider in either case.
\<close>

theorem summarize_text_degenerate:
  "(text = [] \<or> max_length \<le> 0 \<longrightarrow> summarize_text self text max_length = (Inr [], [])) \<and>
   (int (length text) \<le> max_length \<longrightarrow> summarize_text self text max_length = (Inr text, []))"
proof -
  have "text = []" if "max_length \<le> 0" and "int (length text) \<le> max_length"
    using that by (cases "text") auto
  then show ?thesis
    by (auto simp add: summarize_text_def)
qed

theorem summarize_text_degenerate_witness:
  "summarize_text (fresh_agent\<lparr>llm := Some llm_echo\<rparr>) [] 5 = (Inr [], []) \<and>
   summarize_text (fresh_agent\<lparr>llm := Some llm_echo\<rparr>) ''abc'' 0 = (Inr [], []) \<and>
   summarize_text (fresh_agent\<lparr>llm := Some llm_echo\<rparr>) ''abc'' (- 2) = (Inr [], []) \<and>
   int (length ''abc'') \<le> 3 \<and>
   summarize_text (fresh_agent\<lparr>llm := Some llm_echo\<rparr>) ''abc'' 3 = (Inr ''abc'', [])"
  using summarize_text_degenerate [of "[]" 5 "fresh_agent\<lparr>llm := Some llm_echo\<rparr>"]
    summarize_text_degenerate [of "''abc''" 0 "fresh_agent\<lparr>llm := Some llm_echo\<rparr>"]
    summarize_text_degenerate [of "''abc''" "- 2" "fresh_agent\<lparr>llm := Some llm_echo\<rparr>"]
    summarize_text_degenerate [of "''abc''" 3 "fresh_agent\<lparr>llm := Some llm_echo\<rparr>"]
  by simp

text \<open>
  C10. For a text longer than \<open>max_length > 0\<close>, an agent whose \<open>llm\<close> attribute is
  absent or \<open>None\<close> returns the cut text with the ellipsis at once: no call is made to the
  provider.
\<close>

theorem summarize_text_without_llm:
  "0 < max_length \<Longrightarrow> max_length < int (length text) \<Longrightarrow> llm self = None \<Longrightarrow>
   summarize_text self text max_length =
     (Inr (rstrip (take (nat max_length) text) @ ''...''), [])"
  by (auto simp add: summarize_text_def truncated_def)

theorem summarize_text_without_llm_witness:
  "(0::int) < 3 \<and> 3 < int (length ''abcdef'') \<and> llm fresh_agent = None \<and>
   summarize_text fresh_agent ''abcdef'' 3 = (Inr ''abc...'', [])"
  using summarize_text_without_llm [of 3 "''abcdef''" fresh_agent]
  by (simp add: fresh_agent_simps rstrip_def isspace_def)

section \<open>Answering a question: what the caller receives\<close>

text \<open>
  C6, as stated: a question put to an agent that is not ready fails with an error
  result of its own kind. The code returns the fixed message as an ordinary string: an
  agent whose chain answers with those very words returns the same value, and the web
  handler sends the message as \<open>{'response': ...}\<close> with status 200, as it sends an
  answer.
\<close>

theorem not_initialized_is_no_error:
  "fst (query out_ok (Some config_py) fresh_agent ''hi'') =
     Inr ''Agent not properly initialized. Make sure Ollama is running.'' \<and>
   fst (query out_ok (Some config_py) fresh_agent ''hi'') =
   fst (query out_ok (Some config_py)
          (fresh_agent\<lparr>qa_chain := Some (chain_answering
             ''Agent not properly initialized. Make sure Ollama is running.'')\<rparr>) ''hi'') \<and>
   query_agent out_ok (Some config_py) fresh_agent (Inr (Some [(''query'', ''hi'')])) =
     Inr (JsonResponse ''Agent not properly initialized. Make sure Ollama is running.'', 200)"
  by (simp add: query_agent_def query_agent_try_def query_def query_try_def fresh_agent_simps
      not_initialized_def chain_answering_def max_response_length_def getattr_def config_py_def
      out_ok_def)

text \<open>
  C6, amended. A question put to an agent whose QA chain is not initialised is answered
  with the fixed message that says so, returned as an ordinary string: nothing is raised
  and nothing is called, neither retrieval nor generation. The web handler, when its own
  prints succeed, sends that message for a non-empty question as \<open>{'response': ...}\<close>
  with status 200.
\<close>

theorem query_not_initialized:
  assumes "qa_chain self = None"
  shows "query out config self question = (Inr not_initialized, []) \<and>
         (\<forall>data. map_of data ''query'' = Some question \<and> question \<noteq> [] \<and>
            out ''app.py'' 37 = None \<and> out ''app.py'' 38 = None \<and> out ''app.py'' 40 = None \<longrightarrow>
            query_agent out config self (Inr (Some data)) =
              Inr (JsonResponse not_initialized, 200))"
proof -
  have q: "query out config self question = (Inr not_initialized, [])"
    using assms by (simp add: query_def query_try_def)
  then show ?thesis
    by (auto simp add: query_agent_def query_agent_try_def)
qed

theorem query_not_initialized_witness:
  "qa_chain fresh_agent = None \<and>
   query out_ascii (Some config_py) fresh_agent ''What color is the sky?'' =
     (Inr ''Agent not properly initialized. Make sure Ollama is running.'', []) \<and>
   map_of [(''query'', ''What color is the sky?'')] ''query'' = Some ''What color is the sky?'' \<and>
   out_ascii ''app.py'' 37 = None \<and> out_ascii ''app.py'' 38 = None \<and>
   out_ascii ''app.py'' 40 = None \<and>
   query_agent out_ascii (Some config_py) fresh_agent
     (Inr (Some [(''query'', ''What color is the sky?'')])) =
     Inr (JsonResponse ''Agent not properly initialized. Make sure Ollama is running.'', 200)"
  using query_not_initialized [of fresh_agent out_ascii "Some config_py" "''What color is the sky?''"]
  by (simp add: fresh_agent_simps not_initialized_def out_ascii_def)

text \<open>
  C5, as stated: the query never raises, and every internal failure reaches the caller
  as a structured error, distinguished from an answer. Neither holds. A
  \<open>KeyboardInterrupt\<close> raised by the chain is not of class \<open>Exception\<close> and leaves
  \<open>query\<close>; so does the \<open>UnicodeEncodeError\<close> of the handler's own print on a
  terminal that cannot encode its cross mark. And what \<open>query\<close> returns is a plain
  string in every case: when the chain raises \<open>Connection refused\<close>, the web handler
  sends the message about it as \<open>{'response': ...}\<close> with status 200, the form of an
  answer; and a chain that raises \<open>ValueError('x')\<close> gives the caller the very string
  that a chain answering \<open>Error processing query: ValueError: x\<close> gives.
\<close>

theorem query_error_not_structured:
  "fst (query out_ok (Some config_py)
     (fresh_agent\<lparr>qa_chain := Some (chain_raising keyboard_interrupt)\<rparr>) ''q'') =
     Inl keyboard_interrupt \<and>
   fst (query out_ascii (Some config_py)
     (fresh_agent\<lparr>qa_chain := Some (chain_raising connection_refused)\<rparr>) ''q'') =
     Inl encode_error \<and>
   query_agent out_ok (Some config_py)
     (fresh_agent\<lparr>qa_chain := Some (chain_raising connection_refused)\<rparr>)
     (Inr (Some [(''query'', ''hi'')])) = Inr (JsonResponse unreachable, 200) \<and>
   query out_ok (Some config_py)
     (fresh_agent\<lparr>qa_chain := Some (chain_raising (Exn True ''ValueError'' ''x''))\<rparr>) ''q'' =
   query out_ok (Some config_py)
     (fresh_agent\<lparr>qa_chain := Some (chain_answering ''Error processing query: ValueError: x'')\<rparr>) ''q''"
  by (simp add: query_agent_def query_agent_try_def query_def query_try_def query_except_def
      chain_raising_def chain_answering_def query_error_def max_response_length_def getattr_def
      config_py_def out_ok_def out_ascii_def keyboard_interrupt_def connection_refused_def)

text \<open>
  C5, amended. For every question, \<open>RAGAgent.query\<close> behaves as follows, and its
  result is a plain string that does not distinguish an error from an answer.
  \<^item> When the chain is not initialised it returns the fixed message.
  \<^item> When the chain raises an exception of class \<open>Exception\<close> and the handler's print
    and traceback output succeed, it returns the message built from the exception.
  \<^item> When the chain raises an exception that is not of class \<open>Exception\<close>, that
    exception reaches the caller; when the handler's print or traceback output raises,
    that exception reaches the caller.
  \<^item> When the chain returns, it returns the answer, or for a nonzero bound that the
    answer exceeds, what the length controller returns or raises.
  \<^item> Whatever string it returns for a non-empty question, the web handler sends as
    \<open>{'response': ...}\<close> with status 200 when the handler's own prints succeed.
\<close>

theorem query_returns_text:
  "(qa_chain self = None \<longrightarrow> fst (query out config self question) = Inr not_initialized) \<and>
   (\<forall>chain e. qa_chain self = Some chain \<and> chain question = Inl e \<and> is_Exception e \<and>
      out ''agent.py'' 231 = None \<and> out ''agent.py'' 232 = None \<longrightarrow>
      fst (query out config self question) = Inr (query_error e)) \<and>
   (\<forall>chain e. qa_chain self = Some chain \<and> chain question = Inl e \<and> \<not> is_Exception e \<longrightarrow>
      fst (query out config self question) = Inl e) \<and>
   (\<forall>chain e e'. qa_chain self = Some chain \<and> chain question = Inl e \<and> is_Exception e \<and>
      (out ''agent.py'' 231 = Some e' \<or>
       out ''agent.py'' 231 = None \<and> out ''agent.py'' 232 = Some e') \<longrightarrow>
      fst (query out config self question) = Inl e') \<and>
   (\<forall>chain result answer. qa_chain self = Some chain \<and> chain question = Inr result \<and>
      answer = (case result ''result'' of None \<Rightarrow> ''No answer found'' | Some a \<Rightarrow> a) \<longrightarrow>
      fst (query out config self question) =
        (if max_response_length config \<noteq> 0 \<and> max_response_length config < int (length answer)
         then fst (summarize_text self answer (max_response_length config))
         else Inr answer)) \<and>
   (\<forall>data response. map_of data ''query'' = Some question \<and> question \<noteq> [] \<and>
      fst (query out config self question) = Inr response \<and>
      out ''app.py'' 37 = None \<and> out ''app.py'' 38 = None \<and> out ''app.py'' 40 = None \<longrightarrow>
      query_agent out config self (Inr (Some data)) = Inr (JsonResponse response, 200))"
proof -
  have none: "fst (query out config self question) = Inr not_initialized"
    if "qa_chain self = None"
    using that by (simp add: query_def query_try_def)
  have caught: "fst (query out config self question) = query_except out e"
    if "qa_chain self = Some chain" and "chain question = Inl e" and "is_Exception e" for chain e
    using that by (simp add: query_def query_try_def)
  have escapes: "fst (query out config self question) = Inl e"
    if "qa_chain self = Some chain" and "chain question = Inl e" and "\<not> is_Exception e" for chain e
    using that by (simp add: query_def query_try_def)
  have returned: "fst (query out config self question) =
      (if max_response_length config \<noteq> 0 \<and> max_response_length config < int (length answer)
       then fst (summarize_text self answer (max_response_length config))
       else Inr answer)"
    if "qa_chain self = Some chain" and "chain question = Inr result"
      and "answer = (case result ''result'' of None \<Rightarrow> ''No answer found'' | Some a \<Rightarrow> a)"
    for chain result answer
  proof (cases "max_response_length config \<noteq> 0 \<and> max_response_length config < int (length answer)")
    case False
    with that show ?thesis
      by (auto simp add: query_def query_try_def Let_def)
  next
    case True
    obtain r calls where s: "summarize_text self answer (max_response_length config) = (r, calls)"
      by (cases "summarize_text self answer (max_response_length config)")
    have "\<not> is_Exception e" if "r = Inl e" for e
      using summarize_text_raises [of self answer "max_response_length config" e] s that by simp
    with that True s show ?thesis
      by (cases r) (auto simp add: query_def query_try_def Let_def)
  qed
  have web: "query_agent out config self (Inr (Some data)) = Inr (JsonResponse response, 200)"
    if "map_of data ''query'' = Some question" and "question \<noteq> []"
      and "fst (query out config self question) = Inr response"
      and "out ''app.py'' 37 = None" and "out ''app.py'' 38 = None" and "out ''app.py'' 40 = None"
    for data response
    using that by (auto simp add: query_agent_def query_agent_try_def)
  show ?thesis
  proof (intro conjI allI impI)
    show "fst (query out config self question) = Inr not_initialized" if "qa_chain self = None"
      using that by (rule none)
  next
    fix chain e
    assume "qa_chain self = Some chain \<and> chain question = Inl e \<and> is_Exception e \<and>
      out ''agent.py'' 231 = None \<and> out ''agent.py'' 232 = None"
    then show "fst (query out config self question) = Inr (query_error e)"
      using caught [of chain e] by (simp add: query_except_def)
  next
    fix chain e
    assume "qa_chain self = Some chain \<and> chain question = Inl e \<and> \<not> is_Exception e"
    then show "fst (query out config self question) = Inl e"
      using escapes by blast
  next
    fix chain e e'
    assume "qa_chain self = Some chain \<and> chain question = Inl e \<and> is_Exception e \<and>
      (out ''agent.py'' 231 = Some e' \<or>
       out ''agent.py'' 231 = None \<and> out ''agent.py'' 232 = Some e')"
    then show "fst (query out config self question) = Inl e'"
      using caught [of chain e] by (auto simp add: query_except_def)
  next
    fix chain result answer
    assume "qa_chain self = Some chain \<and> chain question = Inr result \<and>
      answer = (case result ''result'' of None \<Rightarrow> ''No answer found'' | Some a \<Rightarrow> a)"
    then show "fst (query out config self question) =
        (if max_response_length config \<noteq> 0 \<and> max_response_length config < int (length answer)
         then fst (summarize_text self answer (max_response_length config))
         else Inr answer)"
      using returned [of chain result answer] by blast
  next
    fix data response
    assume "map_of data ''query'' = Some question \<and> question \<noteq> [] \<and>
      fst (query out config self question) = Inr response \<and>
      out ''app.py'' 37 = None \<and> out ''app.py'' 38 = None \<and> out ''app.py'' 40 = None"
    then show "query_agent out config self (Inr (Some data)) = Inr (JsonResponse response, 200)"
      using web [of data response] by blast
  qed
qed

theorem query_returns_text_witness:
  "qa_chain (fresh_agent\<lparr>qa_chain := Some (chain_raising connection_refused)\<rparr>) =
     Some (chain_raising connection_refused) \<and>
   chain_raising connection_refused ''hi'' = Inl connection_refused \<and>
   is_Exception connection_refused \<and>
   out_ok ''agent.py'' 231 = None \<and> out_ok ''agent.py'' 232 = None \<and>
   fst (query out_ok (Some config_py)
     (fresh_agent\<lparr>qa_chain := Some (chain_raising connection_refused)\<rparr>) ''hi'') = Inr unreachable \<and>
   map_of [(''query'', ''hi'')] ''query'' = Some ''hi'' \<and>
   query_agent out_ok (Some config_py)
     (fresh_agent\<lparr>qa_chain := Some (chain_raising connection_refused)\<rparr>)
     (Inr (Some [(''query'', ''hi'')])) = Inr (JsonResponse unreachable, 200) \<and>
   \<not> is_Exception keyboard_interrupt \<and>
   fst (query out_ok (Some config_py)
     (fresh_agent\<lparr>qa_chain := Some (chain_raising keyboard_interrupt)\<rparr>) ''hi'') =
     Inl keyboard_interrupt \<and>
   fst (query out_ok (Some config_py) fresh_agent ''hi'') = Inr not_initialized"
proof -
  let ?down = "fresh_agent\<lparr>qa_chain := Some (chain_raising connection_refused)\<rparr>"
  let ?stop = "fresh_agent\<lparr>qa_chain := Some (chain_raising keyboard_interrupt)\<rparr>"
  have facts: "qa_chain ?down = Some (chain_raising connection_refused)"
    "chain_raising connection_refused ''hi'' = Inl connection_refused"
    "is_Exception connection_refused"
    "out_ok ''agent.py'' 231 = None" "out_ok ''agent.py'' 232 = None"
    "out_ok ''app.py'' 37 = None" "out_ok ''app.py'' 38 = None" "out_ok ''app.py'' 40 = None"
    "map_of [(''query'', ''hi'')] ''query'' = Some ''hi''"
    "qa_chain ?stop = Some (chain_raising keyboard_interrupt)"
    "chain_raising keyboard_interrupt ''hi'' = Inl keyboard_interrupt"
    "\<not> is_Exception keyboard_interrupt"
    "qa_chain fresh_agent = None"
    "query_error connection_refused = unreachable"
    by (simp_all add: chain_raising_def connection_refused_def keyboard_interrupt_def out_ok_def
        fresh_agent_simps query_error_def)
  note down = query_returns_text [of ?down out_ok "Some config_py" "''hi''"]
  note stop = query_returns_text [of ?stop out_ok "Some config_py" "''hi''"]
  note fresh = query_returns_text [of fresh_agent out_ok "Some config_py" "''hi''"]
  from down facts have one: "fst (query out_ok (Some config_py) ?down ''hi'') = Inr unreachable"
    by metis
  from down facts one have two: "query_agent out_ok (Some config_py) ?down
      (Inr (Some [(''query'', ''hi'')])) = Inr (JsonResponse unreachable, 200)"
    by (metis list.distinct(1))
  from stop facts have three: "fst (query out_ok (Some config_py) ?stop ''hi'') = Inl keyboard_interrupt"
    by metis
  from fresh facts have four: "fst (query out_ok (Some config_py) fresh_agent ''hi'') = Inr not_initialized"
    by metis
  from facts one two three four show ?thesis
    by (intro conjI)
qed

text \<open>
  C9, as stated: the length controller is invoked only for a positive bound that the
  answer exceeds. The test in \<open>query\<close> is \<open>max_length and len(answer) > max_length\<close>,
  which a negative bound passes for every answer: with \<open>MAX_RESPONSE_LENGTH = -1\<close> the
  answer \<open>blue\<close> goes through the controller and comes back as the empty string.
\<close>

theorem query_negative_bound:
  "max_response_length (Some (config_py\<lparr>MAX_RESPONSE_LENGTH := Some (- 1)\<rparr>)) = - 1 \<and>
   query out_ok (Some (config_py\<lparr>MAX_RESPONSE_LENGTH := Some (- 1)\<rparr>))
     (fresh_agent\<lparr>qa_chain := Some (chain_answering ''blue'')\<rparr>) ''q'' = (Inr [], [QAInvoke ''q''])"
  by (simp add: query_def query_try_def chain_answering_def max_response_length_def getattr_def
      config_py_def summarize_text_def)

text \<open>
  C9, amended. Let the chain return a result, \<open>answer\<close> its \<open>result\<close> entry (or
  \<open>No answer found\<close>) and \<open>m\<close> the configured bound, 0 when it is unset. When \<open>m\<close> is
  0 or the answer has at most \<open>m\<close> characters, \<open>query\<close> returns the answer unchanged
  and calls nothing but the chain. Otherwise, that is for a nonzero \<open>m\<close> that the
  length of the answer exceeds, it returns what the length controller returns; for a
  negative \<open>m\<close> that is the empty string, for every answer.
\<close>

theorem query_length_gate:
  assumes "qa_chain self = Some chain" and "chain question = Inr result"
    and "answer = (case result ''result'' of None \<Rightarrow> ''No answer found'' | Some a \<Rightarrow> a)"
    and "m = max_response_length config"
  shows "(m = 0 \<or> int (length answer) \<le> m \<longrightarrow>
            query out config self question = (Inr answer, [QAInvoke question])) \<and>
         (m \<noteq> 0 \<and> m < int (length answer) \<longrightarrow>
            query out config self question =
              (fst (summarize_text self answer m),
               QAInvoke question # snd (summarize_text self answer m))) \<and>
         (m < 0 \<longrightarrow> query out config self question = (Inr [], [QAInvoke question]))"
proof -
  have neg: "summarize_text self answer m = (Inr [], [])" if "m < 0"
    using that by (simp add: summarize_text_def)
  have below: "m < int (length answer)" if "m < 0"
    using that by linarith
  obtain r calls where s: "summarize_text self answer m = (r, calls)"
    by (cases "summarize_text self answer m")
  have "\<not> is_Exception e" if "r = Inl e" for e
    using summarize_text_raises [of self answer m e] s that by simp
  with neg below assms s show ?thesis
    by (cases r) (auto simp add: query_def query_try_def Let_def)
qed

theorem query_length_gate_witness:
  "qa_chain (fresh_agent\<lparr>qa_chain := Some (chain_answering ''blue'')\<rparr>) =
     Some (chain_answering ''blue'') \<and>
   chain_answering ''blue'' ''q'' = Inr [''result'' \<mapsto> ''blue''] \<and>
   int (length ''blue'') \<le> 700 \<and>
   query out_ok (Some config_py) (fresh_agent\<lparr>qa_chain := Some (chain_answering ''blue'')\<rparr>) ''q'' =
     (Inr ''blue'', [QAInvoke ''q'']) \<and>
   query out_ok None (fresh_agent\<lparr>qa_chain := Some (chain_answering ''blue'')\<rparr>) ''q'' =
     (Inr ''blue'', [QAInvoke ''q''])"
  using query_length_gate [of "fresh_agent\<lparr>qa_chain := Some (chain_answering ''blue'')\<rparr>"
      "chain_answering ''blue''" "''q''" "[''result'' \<mapsto> ''blue'']" "''blue''" 700 "Some config_py" out_ok]
    query_length_gate [of "fresh_agent\<lparr>qa_chain := Some (chain_answering ''blue'')\<rparr>"
      "chain_answering ''blue''" "''q''" "[''result'' \<mapsto> ''blue'']" "''blue''" 0 None out_ok]
  by (simp add: chain_answering_def max_response_length_def getattr_def config_py_def)

section \<open>Where the index is persisted: collisions\<close>

lemma path_join_relative:
  "\<not> startswith b ''/'' \<Longrightarrow> \<not> startswith c ''/'' \<Longrightarrow> (path_join a b = path_join a c) = (b = c)"
  by (auto simp add: path_join_def)

lemma replace_absent: "old \<notin> set s \<Longrightarrow> replace old new s = s"
  by (induction s) (auto simp add: replace_def)

text \<open>
  C8, as stated: distinct embedding-model identities have distinct storage locations.
  The location is derived from the identity with every colon replaced by an underscore,
  so the distinct identities \<open>nomic:v1\<close> and \<open>nomic_v1\<close> share one location.
\<close>

theorem index_path_collision:
  "''nomic:v1'' \<noteq> ''nomic_v1'' \<and>
   index_path ''documents'' ''nomic:v1'' = index_path ''documents'' ''nomic_v1'' \<and>
   faiss_index_path (init_fields (Some config_py) None ''documents'' ''phi3:mini'' None (Some ''nomic:v1'')) =
   faiss_index_path (init_fields (Some config_py) None ''documents'' ''phi3:mini'' None (Some ''nomic_v1''))"
  by (simp add: index_path_def replace_def init_fields_def or_else_def Let_def)

text \<open>
  C8, amended. In one documents directory, two embedding-model identities share a
  storage location exactly when they are equal after every colon is replaced by an
  underscore. Distinct identities that contain no colon therefore never collide.
\<close>

theorem index_path_eq_iff:
  "(index_path dir m1 = index_path dir m2) =
     (replace (CHR '':'') (CHR ''_'') m1 = replace (CHR '':'') (CHR ''_'') m2) \<and>
   (CHR '':'' \<notin> set m1 \<and> CHR '':'' \<notin> set m2 \<and> m1 \<noteq> m2 \<longrightarrow>
      index_path dir m1 \<noteq> index_path dir m2)"
  by (simp add: index_path_def Let_def path_join_relative replace_absent)

theorem index_path_eq_iff_witness:
  "CHR '':'' \<notin> set ''nomic-embed-text'' \<and> CHR '':'' \<notin> set ''mxbai-embed-large'' \<and>
   ''nomic-embed-text'' \<noteq> ''mxbai-embed-large'' \<and>
   index_path ''documents'' ''nomic-embed-text'' \<noteq> index_path ''documents'' ''mxbai-embed-large''"
proof -
  have distinct: "CHR '':'' \<notin> set ''nomic-embed-text'' \<and> CHR '':'' \<notin> set ''mxbai-embed-large'' \<and>
      ''nomic-embed-text'' \<noteq> ''mxbai-embed-large''"
    by simp
  from index_path_eq_iff [of "''documents''" "''nomic-embed-text''" "''mxbai-embed-large''"] distinct
  show ?thesis
    by blast
qed

section \<open>Adding a document\<close>

lemma then_do_returns:
  "then_do m k w = (Inr b, w') \<Longrightarrow> \<exists>a w1. m w = (Inr a, w1) \<and> k a w1 = (Inr b, w')"
  by (auto simp add: then_do_def split: prod.splits sum.splits)

lemma print_line_returns: "print_line ext line w = (Inr u, w') \<Longrightarrow> w' = w"
  by (auto simp add: print_line_def lift_def split: option.splits)

lemma lift_returns: "lift r w = (Inr a, w') \<Longrightarrow> r = Inr a \<and> w' = w"
  by (simp add: lift_def)

lemma update_files_returns:
  "update_files operation w = (Inr u, w') \<Longrightarrow> \<exists>f. operation (files w) = Inr f \<and> w' = w\<lparr>files := f\<rparr>"
  by (auto simp add: update_files_def split: sum.splits)

lemma except_Exception_returns:
  "except_Exception m handler w = (Inr a, w') \<Longrightarrow>
   m w = (Inr a, w') \<or> (\<exists>e w1. m w = (Inl e, w1) \<and> is_Exception e \<and> handler e w1 = (Inr a, w'))"
  by (auto simp add: except_Exception_def split: prod.splits sum.splits if_splits)

lemma write_file_written:
  "write_file ext path content f = Inr f1 \<Longrightarrow> f1 (realpath ext path) = Some (File content)"
  by (auto simp add: write_file_def split: option.splits node.splits)

lemma remove_cached_index_removed:
  "remove_cached_index ext path f = Inr f2 \<Longrightarrow> f2 (realpath ext path) = None"
  by (auto simp add: remove_cached_index_def exists_def rmtree_def
      split: if_splits option.splits node.splits)

lemma remove_cached_index_keeps:
  "remove_cached_index ext path f = Inr f2 \<Longrightarrow> f entry = Some (File content) \<Longrightarrow>
   \<not> inside ext (realpath ext path) entry \<Longrightarrow> f2 entry = Some (File content)"
  by (auto simp add: remove_cached_index_def exists_def rmtree_def
      split: if_splits option.splits node.splits)

lemma load_documents_agent: "load_documents ext w = (r, w1) \<Longrightarrow> agent w1 = agent w"
  by (auto simp add: load_documents_def create_sample_document_def io_defs
      split: sum.splits option.splits prod.splits if_splits)

lemma set_vector_store_returns:
  "set_vector_store vs w = (Inr u, w') \<Longrightarrow> w' = w\<lparr>agent := (agent w)\<lparr>vector_store := Some vs\<rparr>\<rparr>"
  by (simp add: set_vector_store_def)

lemma save_local_saved:
  "save_local ext vs path f = Inr f' \<Longrightarrow> f' (realpath ext path) = Some (IndexDir vs)"
  by (auto simp add: save_local_def split: option.splits)

lemma create_vector_store_returns:
  assumes "create_vector_store ext embeddings w = (Inr u, w')"
  shows "\<exists>documents vs. fst (load_documents ext w) = Inr documents \<and>
           from_documents ext (split_documents ext documents) embeddings = Inr vs \<and>
           agent w' = (agent w)\<lparr>vector_store := Some vs\<rparr> \<and>
           files w' (realpath ext (faiss_index_path (agent w))) = Some (IndexDir vs)"
proof -
  from assms obtain documents w1 vs f where
    l: "load_documents ext w = (Inr documents, w1)"
    and v: "from_documents ext (split_documents ext documents) embeddings = Inr vs"
    and s: "save_local ext vs (faiss_index_path (agent w1)) (files w1) = Inr f"
    and w': "w' = w1\<lparr>agent := (agent w1)\<lparr>vector_store := Some vs\<rparr>, files := f\<rparr>"
    unfolding create_vector_store_def Let_def
    by (auto dest!: then_do_returns print_line_returns lift_returns update_files_returns
        set_vector_store_returns)
  have a: "agent w1 = agent w"
    using l by (rule load_documents_agent)
  have "f (realpath ext (faiss_index_path (agent w))) = Some (IndexDir vs)"
    using s a save_local_saved by metis
  with l v w' a show ?thesis
    by simp
qed

lemma initialize_except_raises: "initialize_except ext e w \<noteq> (Inr u, w')"
  by (auto simp add: initialize_except_def raise_def
      dest!: then_do_returns print_line_returns split: if_splits)

lemma initialize_agent_rebuilds:
  assumes "initialize_agent ext w = (Inr u, w')"
    and "files w (realpath ext (faiss_index_path (agent w))) = None"
  shows "\<exists>documents vs l chain. fst (load_documents ext w) = Inr documents \<and>
           from_documents ext (split_documents ext documents)
             (OllamaEmbeddings (embeddings_model (agent w)) (base_url (agent w))) = Inr vs \<and>
           ollama ext (model_name (agent w)) (base_url (agent w)) = Inr l \<and>
           retrieval_qa ext l vs prompt_template = Inr chain \<and>
           agent w' = (agent w)\<lparr>vector_store := Some vs, llm := Some l, qa_chain := Some chain\<rparr> \<and>
           files w' (realpath ext (faiss_index_path (agent w))) = Some (IndexDir vs)"
proof -
  let ?emb = "OllamaEmbeddings (embeddings_model (agent w)) (base_url (agent w))"
  let ?rest = "\<lambda>_::unit. then_do (print_line ext 110)
              (\<lambda>_. then_do (lift (ollama ext (model_name (agent w)) (base_url (agent w))))
                 (\<lambda>l. then_do (set_llm l)
                    (\<lambda>_. then_do
                       (\<lambda>w. case vector_store (agent w) of
                              None \<Rightarrow> raise no_as_retriever w
                            | Some vs \<Rightarrow> lift (retrieval_qa ext l vs prompt_template) w)
                       (\<lambda>chain. then_do (set_qa_chain chain)
                          (\<lambda>_. print_line ext 139)))))"
  from assms(1) have "initialize_try ext w = (Inr u, w')"
    unfolding initialize_agent_def
    by (auto dest!: except_Exception_returns simp add: initialize_except_raises)
  with assms(2) have "then_do (create_vector_store ext ?emb) ?rest w = (Inr u, w')"
    by (simp add: initialize_try_def Let_def)
  from then_do_returns [OF this] obtain a w1 where
    c: "create_vector_store ext ?emb w = (Inr a, w1)" and rest: "?rest a w1 = (Inr u, w')"
    by blast
  from create_vector_store_returns [OF c] obtain documents vs where
    d: "fst (load_documents ext w) = Inr documents"
       "from_documents ext (split_documents ext documents) ?emb = Inr vs"
       "agent w1 = (agent w)\<lparr>vector_store := Some vs\<rparr>"
       "files w1 (realpath ext (faiss_index_path (agent w))) = Some (IndexDir vs)"
    by blast
  from rest obtain l chain where
    o: "ollama ext (model_name (agent w)) (base_url (agent w)) = Inr l"
    and q: "(case vector_store (agent (w1\<lparr>agent := (agent w1)\<lparr>llm := Some l\<rparr>\<rparr>)) of
              None \<Rightarrow> raise no_as_retriever (w1\<lparr>agent := (agent w1)\<lparr>llm := Some l\<rparr>\<rparr>)
            | Some vs \<Rightarrow> lift (retrieval_qa ext l vs prompt_template)
                (w1\<lparr>agent := (agent w1)\<lparr>llm := Some l\<rparr>\<rparr>)) =
           (Inr chain, w1\<lparr>agent := (agent w1)\<lparr>llm := Some l\<rparr>\<rparr>)"
    and w': "w' = w1\<lparr>agent := (agent w1)\<lparr>llm := Some l, qa_chain := Some chain\<rparr>\<rparr>"
    by (auto dest!: then_do_returns print_line_returns lift_returns
        simp add: set_llm_def set_qa_chain_def raise_def lift_def split: option.splits)
  from q d(3) have r: "retrieval_qa ext l vs prompt_template = Inr chain"
    by (simp add: lift_def)
  from d o r w' show ?thesis
    by simp
qed

lemmas eval_defs = add_document_def add_document_try_def ext_down_def ext_up_def ready_def
  fresh_agent_simps fs_defs init_defs io_defs Let_def out_ok_def connection_refused_def

text \<open>
  C7, as stated: for every content and name, \<open>add_document\<close> has discarded the index
  in memory and completed a full reindex when it returns. With the embedding provider
  unreachable it returns \<open>False\<close> after it has written the document and deleted the
  persisted index: no index is rebuilt, none is persisted, and the agent still holds the
  old index in memory.
\<close>

theorem add_document_failure_keeps_index:
  "fst (add_document ext_down ready ''Grass is green.'' (Some ''grass.txt'')) = Inr False \<and>
   vector_store (agent (snd (add_document ext_down ready ''Grass is green.'' (Some ''grass.txt'')))) =
     Some old_index \<and>
   files (snd (add_document ext_down ready ''Grass is green.'' (Some ''grass.txt'')))
     ''documents/grass.txt'' = Some (File ''Grass is green.'') \<and>
   files (snd (add_document ext_down ready ''Grass is green.'' (Some ''grass.txt'')))
     ''documents/faiss_index_nomic-embed-text'' = None"
proof -
  define r where "r = add_document ext_down ready ''Grass is green.'' (Some ''grass.txt'')"
  have "fst r = Inr False"
    unfolding r_def by (simp add: eval_defs)
  moreover have "vector_store (agent (snd r)) = Some old_index"
    unfolding r_def by (simp add: eval_defs)
  moreover have "files (snd r) ''documents/grass.txt'' = Some (File ''Grass is green.'')"
    unfolding r_def by (simp add: eval_defs)
  moreover have "files (snd r) ''documents/faiss_index_nomic-embed-text'' = None"
    unfolding r_def by (simp add: eval_defs)
  ultimately show ?thesis
    unfolding r_def by (intro conjI)
qed

text \<open>
  C7, amended. Whenever \<open>add_document\<close> returns \<open>True\<close>, it has, in this order and
  before returning: written the document at its path; removed the persisted index, and
  with it every entry inside the index directory, so that nothing is left at the index
  path, while the new document is still there unless it was written inside that
  directory; loaded the documents, split them, built a new index from the chunks with the
  agent's embedding model, made it the index in memory and persisted it at the index path;
  and created the generation client and the chain over the new index.
\<close>

theorem add_document_success:
  assumes "add_document ext w content filename = (Inr True, w')"
  shows "\<exists>f1 f2 documents vs l chain.
           write_file ext (document_path ext (agent w) filename) content (files w) = Inr f1 \<and>
           f1 (realpath ext (document_path ext (agent w) filename)) = Some (File content) \<and>
           remove_cached_index ext (faiss_index_path (agent w)) f1 = Inr f2 \<and>
           f2 (realpath ext (faiss_index_path (agent w))) = None \<and>
           (\<not> inside ext (realpath ext (faiss_index_path (agent w)))
                (realpath ext (document_path ext (agent w) filename)) \<longrightarrow>
              f2 (realpath ext (document_path ext (agent w) filename)) = Some (File content)) \<and>
           fst (load_documents ext (w\<lparr>files := f2\<rparr>)) = Inr documents \<and>
           from_documents ext (split_documents ext documents)
             (OllamaEmbeddings (embeddings_model (agent w)) (base_url (agent w))) = Inr vs \<and>
           ollama ext (model_name (agent w)) (base_url (agent w)) = Inr l \<and>
           retrieval_qa ext l vs prompt_template = Inr chain \<and>
           agent w' = (agent w)\<lparr>vector_store := Some vs, llm := Some l, qa_chain := Some chain\<rparr> \<and>
           files w' (realpath ext (faiss_index_path (agent w))) = Some (IndexDir vs)"
proof -
  let ?path = "document_path ext (agent w) filename"
  let ?index = "faiss_index_path (agent w)"
  from assms have "add_document_try ext content filename w = (Inr True, w')"
    unfolding add_document_def
    by (auto dest!: except_Exception_returns then_do_returns simp add: ret_def)
  then obtain f1 f2 u where f1: "write_file ext ?path content (files w) = Inr f1"
    and f2: "remove_cached_index ext ?index f1 = Inr f2"
    and i: "initialize_agent ext (w\<lparr>files := f2\<rparr>) = (Inr u, w')"
    unfolding add_document_try_def Let_def
    by (auto dest!: then_do_returns update_files_returns simp add: ret_def)
  have written: "f1 (realpath ext ?path) = Some (File content)"
    using f1 by (rule write_file_written)
  have removed: "f2 (realpath ext ?index) = None"
    using f2 by (rule remove_cached_index_removed)
  have kept: "f2 (realpath ext ?path) = Some (File content)"
    if "\<not> inside ext (realpath ext ?index) (realpath ext ?path)"
    using f2 written that by (rule remove_cached_index_keeps)
  from initialize_agent_rebuilds [OF i] removed obtain documents vs l chain where
    "fst (load_documents ext (w\<lparr>files := f2\<rparr>)) = Inr documents"
    "from_documents ext (split_documents ext documents)
       (OllamaEmbeddings (embeddings_model (agent w)) (base_url (agent w))) = Inr vs"
    "ollama ext (model_name (agent w)) (base_url (agent w)) = Inr l"
    "retrieval_qa ext l vs prompt_template = Inr chain"
    "agent w' = (agent w)\<lparr>vector_store := Some vs, llm := Some l, qa_chain := Some chain\<rparr>"
    "files w' (realpath ext (faiss_index_path (agent w))) = Some (IndexDir vs)"
    by auto
  with f1 f2 written removed kept show ?thesis
    by blast
qed

theorem add_document_success_witness:
  "add_document ext_up ready ''Grass is green.'' (Some ''grass.txt'') =
     (Inr True, snd (add_document ext_up ready ''Grass is green.'' (Some ''grass.txt''))) \<and>
   vector_store (agent (snd (add_document ext_up ready ''Grass is green.'' (Some ''grass.txt'')))) =
     Some (FAISS [sky, Document ''Grass is green.'' ''documents/grass.txt''] ''nomic-embed-text'') \<and>
   (\<exists>vs. vector_store (agent (snd (add_document ext_up ready ''Grass is green.'' (Some ''grass.txt'')))) =
            Some vs \<and>
          files (snd (add_document ext_up ready ''Grass is green.'' (Some ''grass.txt'')))
            (realpath ext_up (faiss_index_path (agent ready))) = Some (IndexDir vs))"
proof -
  define r where "r = add_document ext_up ready ''Grass is green.'' (Some ''grass.txt'')"
  have e1: "fst r = Inr True"
    unfolding r_def by (simp add: eval_defs)
  have e2: "vector_store (agent (snd r)) =
      Some (FAISS [sky, Document ''Grass is green.'' ''documents/grass.txt''] ''nomic-embed-text'')"
    unfolding r_def by (simp add: eval_defs sky_def)
  have "r = (fst r, snd r)"
    by (rule prod.collapse [symmetric])
  with e1 have h: "add_document ext_up ready ''Grass is green.'' (Some ''grass.txt'') = (Inr True, snd r)"
    unfolding r_def by simp
  from add_document_success [OF h] obtain vs l chain where
    a: "agent (snd r) = (agent ready)\<lparr>vector_store := Some vs, llm := Some l, qa_chain := Some chain\<rparr>"
    and f: "files (snd r) (realpath ext_up (faiss_index_path (agent ready))) = Some (IndexDir vs)"
    by (elim exE conjE)
  from a have v: "vector_store (agent (snd r)) = Some vs"
    by simp
  from v f have x: "\<exists>vs. vector_store (agent (snd r)) = Some vs \<and>
      files (snd r) (realpath ext_up (faiss_index_path (agent ready))) = Some (IndexDir vs)"
    by (intro exI conjI)
  from h e2 x show ?thesis
    unfolding r_def by (intro conjI)
qed

text \<open>
  A document written inside the index directory goes with the directory: the call
  returns \<open>True\<close> and the document is not there.
\<close>

lemma add_document_inside_index:
  "fst (add_document ext_up ready ''Grass is green.''
          (Some ''faiss_index_nomic-embed-text/grass.txt'')) = Inr True \<and>
   files (snd (add_document ext_up ready ''Grass is green.''
          (Some ''faiss_index_nomic-embed-text/grass.txt'')))
     ''documents/faiss_index_nomic-embed-text/grass.txt'' = None"
  by (simp add: eval_defs)

end
